theory Spec2Isabelle
  imports Complex_Main
begin

section \<open>The ECG processing pipeline of \<^verbatim>\<open>ecg_processing.py\<close>\<close>

text \<open>
  The pipeline filters a raw ECG buffer, detects R-peaks, derives RR intervals and computes
  time-domain HRV metrics. The embedding follows \<^verbatim>\<open>ecg_processing.py\<close> function by
  function.

  Conventions of the embedding:
  \<^item> a NumPy array of floats is a \<open>real list\<close>: floating-point arithmetic is idealised
    as exact real arithmetic, so rounding, overflow and infinities are not in the model;
  \<^item> an array of indices (\<open>np.intp\<close>) is an \<open>int list\<close>;
  \<^item> a Python value that may be \<open>None\<close> is an \<open>option\<close>;
  \<^item> the module \<^verbatim>\<open>config\<close> is a record passed to every function;
  \<^item> each \<^verbatim>\<open>print\<close> is an entry of a message list that the function returns
    next to its value (the formatted numbers of the message are left out);
  \<^item> an uncaught Python exception is the \<open>Inl\<close> of a sum type.
\<close>

subsection \<open>Configuration (\<^verbatim>\<open>config.py\<close>)\<close>

record config =
  SAMPLING_RATE_HZ :: real
  FILTER_LOWCUT_HZ :: real
  FILTER_HIGHCUT_HZ :: real
  FILTER_ORDER :: int
  PEAK_HEIGHT_THRESHOLD_MULTIPLIER :: real
  MAX_HR_BPM_FOR_PEAK_DISTANCE :: real

text \<open>The values that \<^verbatim>\<open>config.py\<close> sets.\<close>

definition config_py :: config where
  "config_py =
     \<lparr> SAMPLING_RATE_HZ = 250,
       FILTER_LOWCUT_HZ = 1 / 2,
       FILTER_HIGHCUT_HZ = 40,
       FILTER_ORDER = 3,
       PEAK_HEIGHT_THRESHOLD_MULTIPLIER = 7 / 10,
       MAX_HR_BPM_FOR_PEAK_DISTANCE = 220 \<rparr>"

subsection \<open>Messages and exceptions\<close>

text \<open>One constructor for each \<^verbatim>\<open>print\<close> of \<^verbatim>\<open>ecg_processing.py\<close>, in source order.\<close>

datatype msg =
    Warning_Invalid_critical_frequencies
  | Warning_Data_length_too_short_for_filter_order
  | Error_applying_filter
  | No_signal_data_available
  | Warning_Filtered_signal_is_flat
  | Error_Invalid_sampling_rate_for_peak_distance
  | Warning_Minimum_peak_distance_is_zero_or_negative
  | Error_Invalid_sampling_rate_for_RR_interval
  | Processing_ECG_data
  | Error_No_raw_ECG_signal_data
  | Data_length nat
  | Processing_Sampling_Rate
  | Warning_Data_is_very_short
  | Error_Data_is_too_short_Aborting
  | Filtering_ECG_signal
  | Detecting_R_peaks
  | Warning_Less_than_2_R_peaks nat
  | Consider_adjusting_parameters
  | Detected_R_peaks nat
  | Calculated_RR_intervals nat
  | HRV_Metrics
  | ECG_processing_complete

datatype error = ZeroDivisionError

subsection \<open>The NumPy operations the pipeline uses\<close>

text \<open>
  The pipeline calls \<open>np.mean\<close>, \<open>np.std\<close>, \<open>np.median\<close>, \<open>np.max\<close> and
  \<open>np.min\<close> on non-empty arrays only; the definitions below are their values there.
\<close>

definition np_diff :: "'a::minus list \<Rightarrow> 'a list" where
  "np_diff xs = map (\<lambda>i. xs ! Suc i - xs ! i) [0 ..< length xs - 1]"

definition np_mean :: "real list \<Rightarrow> real" where
  "np_mean xs = sum_list xs / real (length xs)"

definition np_std :: "real list \<Rightarrow> real" where
  "np_std xs = sqrt (np_mean (map (\<lambda>x. (x - np_mean xs)\<^sup>2) xs))"

definition np_median :: "real list \<Rightarrow> real" where
  "np_median xs =
     (let s = sort xs; n = length s
      in if even n then (s ! (n div 2 - 1) + s ! (n div 2)) / 2 else s ! (n div 2))"

definition np_max :: "real list \<Rightarrow> real" where
  "np_max xs = fold max (tl xs) (hd xs)"

definition np_min :: "real list \<Rightarrow> real" where
  "np_min xs = fold min (tl xs) (hd xs)"

text \<open>\<open>np.sum(mask)\<close> of a boolean mask counts the entries that are true.\<close>

definition np_count :: "('a \<Rightarrow> bool) \<Rightarrow> 'a list \<Rightarrow> nat" where
  "np_count P xs = length (filter P xs)"

text \<open>Python's \<open>int(x)\<close> of a float truncates towards zero.\<close>

definition py_int :: "real \<Rightarrow> int" where
  "py_int x = (if 0 \<le> x then \<lfloor>x\<rfloor> else \<lceil>x\<rceil>)"

subsection \<open>\<^verbatim>\<open>calculate_rr_intervals\<close>\<close>

definition calculate_rr_intervals :: "config \<Rightarrow> int list option \<Rightarrow> msg list \<times> real list" where
  "calculate_rr_intervals cfg r_peaks_indices =
     (case r_peaks_indices of
        None \<Rightarrow> ([], [])
      | Some peaks \<Rightarrow>
          if length peaks < 2 then ([], [])
          else
            let rr_intervals_samples = np_diff peaks in
            if SAMPLING_RATE_HZ cfg \<le> 0 then ([Error_Invalid_sampling_rate_for_RR_interval], [])
            else
              let rr_intervals_ms =
                    map (\<lambda>d. (real_of_int d / SAMPLING_RATE_HZ cfg) * 1000) rr_intervals_samples
              in ([], rr_intervals_ms))"

subsection \<open>\<^verbatim>\<open>calculate_hrv_metrics\<close>\<close>

text \<open>
  A value of the metrics dictionary is a float that may be \<open>np.nan\<close>, the sentinel for
  an undefined metric. A comparison with \<open>np.nan\<close> is false.
\<close>

datatype metric_value = NaN | Value real

fun greater_than :: "metric_value option \<Rightarrow> real \<Rightarrow> bool" where
  "greater_than (Some (Value v)) c = (c < v)"
| "greater_than _ c = False"

fun divide_into :: "real \<Rightarrow> metric_value option \<Rightarrow> metric_value" where
  "divide_into c (Some (Value v)) = Value (c / v)"
| "divide_into c _ = NaN"

definition calculate_hrv_metrics :: "real list option \<Rightarrow> (string \<rightharpoonup> metric_value)" where
  "calculate_hrv_metrics rr_intervals_ms =
     (let metrics = Map.empty;
          undefined_metrics =
            metrics(''Mean_RR_ms'' \<mapsto> NaN,
                    ''SDNN_ms'' \<mapsto> NaN,
                    ''RMSSD_ms'' \<mapsto> NaN,
                    ''pNN50_percent'' \<mapsto> NaN,
                    ''Mean_Heart_Rate_BPM'' \<mapsto> NaN)
      in case rr_intervals_ms of
        None \<Rightarrow> undefined_metrics
      | Some rr \<Rightarrow>
          if length rr < 2 then undefined_metrics
          else
            let metrics = metrics(''Mean_RR_ms'' \<mapsto> Value (np_mean rr));
                metrics = metrics(''SDNN_ms'' \<mapsto> Value (np_std rr));
                metrics =
                  (if length rr \<ge> 2 then
                     let diff_rr = np_diff rr;
                         metrics = metrics(''RMSSD_ms'' \<mapsto>
                                     Value (sqrt (np_mean (map (\<lambda>d. d\<^sup>2) diff_rr))));
                         nn50 = np_count (\<lambda>d. \<bar>d\<bar> > 50) diff_rr
                     in metrics(''pNN50_percent'' \<mapsto>
                          Value (if length diff_rr > 0
                                 then (real nn50 / real (length diff_rr)) * 100 else 0))
                   else metrics(''RMSSD_ms'' \<mapsto> NaN, ''pNN50_percent'' \<mapsto> NaN))
            in if greater_than (metrics ''Mean_RR_ms'') 0
               then metrics(''Mean_Heart_Rate_BPM'' \<mapsto> divide_into 60000 (metrics ''Mean_RR_ms''))
               else metrics(''Mean_Heart_Rate_BPM'' \<mapsto> NaN))"

subsection \<open>\<^verbatim>\<open>butter_bandpass_filter\<close>\<close>

text \<open>
  The filter design and its forward-backward application
  (\<^verbatim>\<open>butter(order, [low, high], btype='band')\<close>, then \<^verbatim>\<open>filtfilt(b, a, data)\<close>)
  are library numerics. They are a parameter of the model: a function of the order, the
  two normalised corners and the data, with \<open>None\<close> when the library raises the
  \<^verbatim>\<open>ValueError\<close> that the source catches.

  Python raises \<^verbatim>\<open>ZeroDivisionError\<close> at \<^verbatim>\<open>lowcut / nyquist\<close> when the
  sampling rate is zero.
\<close>

type_synonym bandpass = "int \<Rightarrow> real \<Rightarrow> real \<Rightarrow> real list \<Rightarrow> real list option"

definition butter_bandpass_filter ::
  "bandpass \<Rightarrow> config \<Rightarrow> real list \<Rightarrow> msg list \<times> (error + real list)" where
  "butter_bandpass_filter butter_filtfilt cfg data =
     (let lowcut = FILTER_LOWCUT_HZ cfg;
          highcut = FILTER_HIGHCUT_HZ cfg;
          fs = SAMPLING_RATE_HZ cfg;
          order = FILTER_ORDER cfg;
          nyquist = (1 / 2) * fs
      in if nyquist = 0 then ([], Inl ZeroDivisionError)
         else
           let low = lowcut / nyquist;
               high = highcut / nyquist
           in if low \<le> 0 \<or> high \<ge> 1 \<or> low \<ge> high
              then ([Warning_Invalid_critical_frequencies], Inr data)
              else if int (length data) < order * 3
              then ([Warning_Data_length_too_short_for_filter_order], Inr data)
              else (case butter_filtfilt order low high data of
                      Some y \<Rightarrow> ([], Inr y)
                    | None \<Rightarrow> ([Error_applying_filter], Inr data)))"

subsection \<open>\<^verbatim>\<open>find_peaks\<close>\<close>

text \<open>
  Modelled from the spec: \<^verbatim>\<open>find_peaks(signal, height, distance)\<close> is a routine of the
  signal library the module imports and is not among the sources. Section 4.2 of the
  specification describes it: scan for local maxima exceeding the threshold; among
  candidates closer than the minimum distance keep the higher-amplitude one, breaking ties
  by lower index, and discard the rest from that window (greedy suppression).

  A local maximum is a sample strictly above both neighbours. The candidates are visited
  from the highest amplitude down (\<open>sort_key\<close> is stable, so equal amplitudes keep
  their index order); a visited candidate is kept and the remaining candidates closer
  than the distance are dropped. The kept indices are returned in ascending order.
\<close>

definition local_maxima :: "real list \<Rightarrow> nat list" where
  "local_maxima x =
     filter (\<lambda>i. x ! (i - 1) < x ! i \<and> x ! (i + 1) < x ! i) [1 ..< length x - 1]"

definition gap :: "nat \<Rightarrow> nat \<Rightarrow> nat" where
  "gap a b = (if a < b then b - a else a - b)"

fun greedy_suppression :: "nat \<Rightarrow> nat list \<Rightarrow> nat list" where
  "greedy_suppression d [] = []"
| "greedy_suppression d (b # cs) = b # greedy_suppression d (filter (\<lambda>k. d \<le> gap k b) cs)"

definition find_peaks :: "real list \<Rightarrow> real \<Rightarrow> int \<Rightarrow> int list" where
  "find_peaks x height distance =
     (let candidates = filter (\<lambda>i. height < x ! i) (local_maxima x);
          by_amplitude = sort_key (\<lambda>i. - (x ! i)) candidates;
          kept = greedy_suppression (nat distance) by_amplitude
      in map int (sort kept))"

subsection \<open>\<^verbatim>\<open>detect_r_peaks\<close>\<close>

text \<open>
  Python raises \<^verbatim>\<open>ZeroDivisionError\<close> at
  \<^verbatim>\<open>60.0 / config.MAX_HR_BPM_FOR_PEAK_DISTANCE\<close> when that constant is zero.
\<close>

definition detect_r_peaks :: "config \<Rightarrow> real list option \<Rightarrow> msg list \<times> (error + int list)" where
  "detect_r_peaks cfg filtered_ecg_signal =
     (case filtered_ecg_signal of
        None \<Rightarrow> ([No_signal_data_available], Inr [])
      | Some signal \<Rightarrow>
          if length signal = 0 then ([No_signal_data_available], Inr [])
          else
            let median_val = np_median signal;
                std_dev = np_std signal;
                peak_height_threshold =
                  median_val + PEAK_HEIGHT_THRESHOLD_MULTIPLIER cfg * std_dev
            in if np_max signal - np_min signal < 1 / 1000000
               then ([Warning_Filtered_signal_is_flat], Inr [])
               else if SAMPLING_RATE_HZ cfg \<le> 0
               then ([Error_Invalid_sampling_rate_for_peak_distance], Inr [])
               else if MAX_HR_BPM_FOR_PEAK_DISTANCE cfg = 0
               then ([], Inl ZeroDivisionError)
               else
                 let min_distance_samples =
                       py_int (SAMPLING_RATE_HZ cfg * (60 / MAX_HR_BPM_FOR_PEAK_DISTANCE cfg));
                     min_distance_samples = max 1 min_distance_samples;
                     min_distance_samples = min min_distance_samples (int (length signal) - 1)
                 in if min_distance_samples \<le> 0
                    then ([Warning_Minimum_peak_distance_is_zero_or_negative], Inr [])
                    else ([], Inr (find_peaks signal peak_height_threshold min_distance_samples)))"

subsection \<open>\<^verbatim>\<open>process_ecg_data\<close>\<close>

text \<open>
  The function returns the tuple \<open>(filtered_ecg, r_peaks, rr_intervals, hrv_metrics)\<close>;
  on an abort it returns \<open>(None, None, None, {})\<close>. The arguments \<open>timestamps\<close>,
  \<open>source_identifier\<close> and \<open>duration_minutes\<close> do not influence the result and are
  left out.
\<close>

type_synonym result =
  "real list option \<times> int list option \<times> real list option \<times> (string \<rightharpoonup> metric_value)"

definition process_ecg_data ::
  "bandpass \<Rightarrow> config \<Rightarrow> real list option \<Rightarrow> msg list \<times> (error + result)" where
  "process_ecg_data butter_filtfilt cfg raw_ecg_signal =
     (let out = [Processing_ECG_data]
      in case raw_ecg_signal of
        None \<Rightarrow> (out @ [Error_No_raw_ECG_signal_data], Inr (None, None, None, Map.empty))
      | Some raw \<Rightarrow>
          if length raw = 0
          then (out @ [Error_No_raw_ECG_signal_data], Inr (None, None, None, Map.empty))
          else
            let out = out @ [Data_length (length raw), Processing_Sampling_Rate];
                very_short = (real (length raw) < SAMPLING_RATE_HZ cfg * 2);
                out = (if very_short then out @ [Warning_Data_is_very_short] else out)
            in if very_short \<and> int (length raw) < FILTER_ORDER cfg * 3
               then (out @ [Error_Data_is_too_short_Aborting], Inr (None, None, None, Map.empty))
               else
                 let out = out @ [Filtering_ECG_signal];
                     (printed, filtered) = butter_bandpass_filter butter_filtfilt cfg raw;
                     out = out @ printed
                 in (case filtered of
                       Inl e \<Rightarrow> (out, Inl e)
                     | Inr filtered_ecg \<Rightarrow>
                        (let out = out @ [Detecting_R_peaks];
                             (printed, detected) = detect_r_peaks cfg (Some filtered_ecg);
                             out = out @ printed
                         in (case detected of
                               Inl e \<Rightarrow> (out, Inl e)
                             | Inr r_peaks \<Rightarrow>
                                (if length r_peaks < 2 then
                                   let out = out @ [Warning_Less_than_2_R_peaks (length r_peaks),
                                                    Consider_adjusting_parameters];
                                       rr_intervals = [];
                                       hrv_metrics = calculate_hrv_metrics (Some rr_intervals)
                                   in (out @ [ECG_processing_complete],
                                       Inr (Some filtered_ecg, Some r_peaks, Some rr_intervals,
                                            hrv_metrics))
                                 else
                                   let out = out @ [Detected_R_peaks (length r_peaks)];
                                       (printed, rr_intervals) =
                                         calculate_rr_intervals cfg (Some r_peaks);
                                       out = out @ printed
                                               @ [Calculated_RR_intervals (length rr_intervals)];
                                       hrv_metrics = calculate_hrv_metrics (Some rr_intervals);
                                       out = out @ [HRV_Metrics]
                                   in (out @ [ECG_processing_complete],
                                       Inr (Some filtered_ecg, Some r_peaks, Some rr_intervals,
                                            hrv_metrics)))))))"

subsection \<open>The minimum peak distance as the specification words it\<close>



subsection \<open>Configurations and inputs of the examples\<close>


definition config_2_Hz :: config where
  "config_2_Hz = config_py \<lparr> SAMPLING_RATE_HZ := 2 \<rparr>"

definition config_negative_rate :: config where
  "config_negative_rate = config_py \<lparr> SAMPLING_RATE_HZ := - 250 \<rparr>"

definition config_crossed :: config where
  "config_crossed = config_py \<lparr> FILTER_LOWCUT_HZ := 40, FILTER_HIGHCUT_HZ := 1 / 2 \<rparr>"

text \<open>
  A library filter for the examples. Every example stops at a guard of
  \<open>butter_bandpass_filter\<close>, so the library is not called in any of them.
\<close>

definition identity_bandpass :: bandpass where
  "identity_bandpass order low high data = Some data"

text \<open>The dictionary with the undefined sentinel under each of the five metrics.\<close>

definition all_undefined :: "string \<rightharpoonup> metric_value" where
  "all_undefined =
     [''Mean_RR_ms'' \<mapsto> NaN, ''SDNN_ms'' \<mapsto> NaN, ''RMSSD_ms'' \<mapsto> NaN,
      ''pNN50_percent'' \<mapsto> NaN, ''Mean_Heart_Rate_BPM'' \<mapsto> NaN]"

section \<open>Properties\<close>

subsection \<open>Successive differences\<close>

lemma length_np_diff: "length (np_diff xs) = length xs - 1"
  by (simp add: np_diff_def)

lemma nth_np_diff: "Suc i < length xs \<Longrightarrow> np_diff xs ! i = xs ! Suc i - xs ! i"
  using nth_upt [of 0 i "length xs - 1"] by (simp add: np_diff_def)

subsection \<open>RR intervals\<close>

text \<open>
  Claim C1. For a positive sampling rate (the configured one is 250 Hz) and every sequence
  of \<open>n\<close> peak indices, \<open>calculate_rr_intervals\<close> returns a series of length
  \<open>max (n - 1) 0\<close> whose \<open>i\<close>-th element is
  \<open>(peak[i+1] - peak[i]) / sampling_rate_hz * 1000\<close>; for \<open>n < 2\<close> the series is empty
  and nothing is reported.
\<close>

theorem calculate_rr_intervals_length_and_values:
  assumes "0 < SAMPLING_RATE_HZ cfg"
  shows "length (snd (calculate_rr_intervals cfg (Some peaks)))
           = nat (max (int (length peaks) - 1) 0)
    \<and> (\<forall>i. Suc i < length peaks \<longrightarrow>
          snd (calculate_rr_intervals cfg (Some peaks)) ! i
            = real_of_int (peaks ! Suc i - peaks ! i) / SAMPLING_RATE_HZ cfg * 1000)
    \<and> (length peaks < 2 \<longrightarrow> calculate_rr_intervals cfg (Some peaks) = ([], []))"
  using assms
  by (auto simp: calculate_rr_intervals_def Let_def length_np_diff nth_np_diff)

theorem calculate_rr_intervals_length_and_values_witness:
  "0 < SAMPLING_RATE_HZ config_py
   \<and> length (snd (calculate_rr_intervals config_py (Some [10, 260, 520]))) = 2
   \<and> snd (calculate_rr_intervals config_py (Some [10, 260, 520])) ! 1 = 1040
   \<and> calculate_rr_intervals config_py (Some [5]) = ([], [])"
proof -
  have h: "0 < SAMPLING_RATE_HZ config_py" by (simp add: config_py_def)
  from calculate_rr_intervals_length_and_values [OF h, of "[10, 260, 520]"]
  have "length (snd (calculate_rr_intervals config_py (Some [10, 260, 520]))) = 2"
    and "snd (calculate_rr_intervals config_py (Some [10, 260, 520])) ! 1
           = real_of_int ([10, 260, 520] ! Suc 1 - [10, 260, 520] ! 1)
               / SAMPLING_RATE_HZ config_py * 1000"
    by simp_all
  moreover from calculate_rr_intervals_length_and_values [OF h, of "[5]"]
  have "calculate_rr_intervals config_py (Some [5]) = ([], [])" by simp
  ultimately show ?thesis using h by (simp add: config_py_def)
qed

subsection \<open>HRV metrics\<close>

text \<open>
  Claim C2. For every RR interval series with fewer than two elements,
  \<open>calculate_hrv_metrics\<close> stores the undefined sentinel under all five metrics.
\<close>

theorem calculate_hrv_metrics_undefined_below_two:
  assumes "length rr < 2"
  shows "calculate_hrv_metrics (Some rr) ''Mean_RR_ms'' = Some NaN
    \<and> calculate_hrv_metrics (Some rr) ''SDNN_ms'' = Some NaN
    \<and> calculate_hrv_metrics (Some rr) ''RMSSD_ms'' = Some NaN
    \<and> calculate_hrv_metrics (Some rr) ''pNN50_percent'' = Some NaN
    \<and> calculate_hrv_metrics (Some rr) ''Mean_Heart_Rate_BPM'' = Some NaN"
  using assms by (simp add: calculate_hrv_metrics_def)

theorem calculate_hrv_metrics_undefined_below_two_witness:
  "length [812::real] < 2
   \<and> calculate_hrv_metrics (Some [812]) ''Mean_RR_ms'' = Some NaN
   \<and> calculate_hrv_metrics (Some [812]) ''SDNN_ms'' = Some NaN
   \<and> calculate_hrv_metrics (Some [812]) ''RMSSD_ms'' = Some NaN
   \<and> calculate_hrv_metrics (Some [812]) ''pNN50_percent'' = Some NaN
   \<and> calculate_hrv_metrics (Some [812]) ''Mean_Heart_Rate_BPM'' = Some NaN"
proof -
  have h: "length [812::real] < 2" by simp
  show ?thesis using h calculate_hrv_metrics_undefined_below_two [OF h] by simp
qed

text \<open>
  Claim C7. Example A: at the configured 250 Hz the peaks \<open>[100, 350, 600, 850]\<close> give
  the RR intervals \<open>[1000, 1000, 1000]\<close> ms, and these give MeanRR 1000, SDNN 0, RMSSD 0,
  pNN50 0 and MeanHR 60.
\<close>

theorem example_A_metrics:
  "SAMPLING_RATE_HZ config_py = 250
   \<and> calculate_rr_intervals config_py (Some [100, 350, 600, 850]) = ([], [1000, 1000, 1000])
   \<and> calculate_hrv_metrics
        (Some (snd (calculate_rr_intervals config_py (Some [100, 350, 600, 850]))))
        ''Mean_RR_ms'' = Some (Value 1000)
   \<and> calculate_hrv_metrics
        (Some (snd (calculate_rr_intervals config_py (Some [100, 350, 600, 850]))))
        ''SDNN_ms'' = Some (Value 0)
   \<and> calculate_hrv_metrics
        (Some (snd (calculate_rr_intervals config_py (Some [100, 350, 600, 850]))))
        ''RMSSD_ms'' = Some (Value 0)
   \<and> calculate_hrv_metrics
        (Some (snd (calculate_rr_intervals config_py (Some [100, 350, 600, 850]))))
        ''pNN50_percent'' = Some (Value 0)
   \<and> calculate_hrv_metrics
        (Some (snd (calculate_rr_intervals config_py (Some [100, 350, 600, 850]))))
        ''Mean_Heart_Rate_BPM'' = Some (Value 60)"
proof -
  have rr: "calculate_rr_intervals config_py (Some [100, 350, 600, 850])
              = ([], [1000, 1000, 1000])"
    by (simp add: calculate_rr_intervals_def config_py_def np_diff_def upt_rec)
  have d: "np_diff [1000, 1000, 1000 :: real] = [0, 0]"
    by (simp add: np_diff_def upt_rec)
  show ?thesis
    unfolding rr
    by (simp add: calculate_hrv_metrics_def d np_mean_def np_std_def np_count_def
        config_py_def)
qed

text \<open>
  Claim C9, as the code has it. With \<open>d\<close> the successive differences of the series:
  when at least one difference exists, pNN50 is \<open>100 * (count of |d[i]| > 50) / len(d)\<close>;
  when none exists (a series of length 0 or 1), pNN50 is the undefined sentinel.
\<close>

theorem pNN50_percent_value:
  "(0 < length (np_diff rr) \<longrightarrow>
      calculate_hrv_metrics (Some rr) ''pNN50_percent''
        = Some (Value (100 * real (np_count (\<lambda>d. \<bar>d\<bar> > 50) (np_diff rr))
                         / real (length (np_diff rr)))))
   \<and> (length (np_diff rr) = 0 \<longrightarrow>
        calculate_hrv_metrics (Some rr) ''pNN50_percent'' = Some NaN)"
proof (cases "length rr < 2")
  case True
  then show ?thesis
    by (simp add: calculate_hrv_metrics_def length_np_diff)
next
  case False
  then have "0 < length (np_diff rr)"
    by (simp add: length_np_diff)
  with False show ?thesis
    by (simp add: calculate_hrv_metrics_def Let_def)
qed

theorem pNN50_percent_value_witness:
  "0 < length (np_diff [800, 900, 910 :: real])
   \<and> calculate_hrv_metrics (Some [800, 900, 910]) ''pNN50_percent'' = Some (Value 50)
   \<and> length (np_diff [800 :: real]) = 0
   \<and> calculate_hrv_metrics (Some [800]) ''pNN50_percent'' = Some NaN"
proof -
  have d: "np_diff [800, 900, 910 :: real] = [100, 10]"
    by (simp add: np_diff_def upt_rec)
  have e: "np_diff [800 :: real] = []"
    by (simp add: np_diff_def)
  show ?thesis
    using pNN50_percent_value [of "[800, 900, 910]"] pNN50_percent_value [of "[800]"]
    by (simp add: d e np_count_def)
qed

text \<open>
  The claim as written says pNN50 is 0 when no successive difference exists. The series
  \<open>[800]\<close> has none, and its pNN50 is not 0.
\<close>

theorem pNN50_percent_not_zero_counterexample:
  "np_diff [800 :: real] = []
   \<and> calculate_hrv_metrics (Some [800]) ''pNN50_percent'' \<noteq> Some (Value 0)"
  by (simp add: calculate_hrv_metrics_def np_diff_def)

text \<open>
  Claim C10. For every input (\<open>None\<close>, empty or any series) the dictionary that
  \<open>calculate_hrv_metrics\<close> returns has exactly the five keys \<open>Mean_RR_ms\<close>,
  \<open>SDNN_ms\<close>, \<open>RMSSD_ms\<close>, \<open>pNN50_percent\<close> and \<open>Mean_Heart_Rate_BPM\<close>.
\<close>

theorem calculate_hrv_metrics_keys:
  "dom (calculate_hrv_metrics rr_intervals_ms)
     = {''Mean_RR_ms'', ''SDNN_ms'', ''RMSSD_ms'', ''pNN50_percent'', ''Mean_Heart_Rate_BPM''}"
  by (auto simp: calculate_hrv_metrics_def Let_def split: option.splits)

subsection \<open>The guards of the band-pass filter\<close>

text \<open>
  Claim C5. With a sampling rate other than zero (so that the normalised corners exist),
  whenever the normalised corners violate \<open>0 < low < high < 1\<close> (\<open>low \<le> 0\<close>, or
  \<open>high \<ge> 1\<close>, or \<open>low \<ge> high\<close>) or the buffer has fewer than \<open>order * 3\<close>
  samples, \<open>butter_bandpass_filter\<close> returns its input unchanged and prints one warning;
  in particular it does so for the crossed corners \<open>lowcut = 40\<close>, \<open>highcut = 0.5\<close>.
\<close>

theorem butter_bandpass_filter_guards:
  assumes "SAMPLING_RATE_HZ cfg \<noteq> 0"
  shows "(FILTER_LOWCUT_HZ cfg / (SAMPLING_RATE_HZ cfg / 2) \<le> 0
          \<or> FILTER_HIGHCUT_HZ cfg / (SAMPLING_RATE_HZ cfg / 2) \<ge> 1
          \<or> FILTER_LOWCUT_HZ cfg / (SAMPLING_RATE_HZ cfg / 2)
               \<ge> FILTER_HIGHCUT_HZ cfg / (SAMPLING_RATE_HZ cfg / 2)
          \<or> int (length data) < FILTER_ORDER cfg * 3
          \<longrightarrow> snd (butter_bandpass_filter butter_filtfilt cfg data) = Inr data
              \<and> (fst (butter_bandpass_filter butter_filtfilt cfg data)
                     = [Warning_Invalid_critical_frequencies]
                   \<or> fst (butter_bandpass_filter butter_filtfilt cfg data)
                     = [Warning_Data_length_too_short_for_filter_order]))
    \<and> (FILTER_LOWCUT_HZ cfg = 40 \<and> FILTER_HIGHCUT_HZ cfg = 1 / 2
          \<longrightarrow> butter_bandpass_filter butter_filtfilt cfg data
                = ([Warning_Invalid_critical_frequencies], Inr data))"
proof -
  have crossed: "(40::real) / (SAMPLING_RATE_HZ cfg / 2) \<le> 0
     \<or> (1 / 2) / (SAMPLING_RATE_HZ cfg / 2) \<le> 40 / (SAMPLING_RATE_HZ cfg / 2)"
    using assms by (cases "0 < SAMPLING_RATE_HZ cfg") (auto simp: field_simps)
  show ?thesis
    using assms crossed by (auto simp: butter_bandpass_filter_def Let_def)
qed

theorem butter_bandpass_filter_guards_witness:
  "SAMPLING_RATE_HZ config_crossed \<noteq> 0
   \<and> FILTER_LOWCUT_HZ config_crossed = 40 \<and> FILTER_HIGHCUT_HZ config_crossed = 1 / 2
   \<and> FILTER_LOWCUT_HZ config_crossed / (SAMPLING_RATE_HZ config_crossed / 2)
       \<ge> FILTER_HIGHCUT_HZ config_crossed / (SAMPLING_RATE_HZ config_crossed / 2)
   \<and> butter_bandpass_filter identity_bandpass config_crossed [0, 1, 4, 1, 0, 0, 1, 4, 1, 0]
       = ([Warning_Invalid_critical_frequencies], Inr [0, 1, 4, 1, 0, 0, 1, 4, 1, 0])
   \<and> SAMPLING_RATE_HZ config_py \<noteq> 0
   \<and> int (length [0, 1, 4, 1, 0 :: real]) < FILTER_ORDER config_py * 3
   \<and> snd (butter_bandpass_filter identity_bandpass config_py [0, 1, 4, 1, 0])
       = Inr [0, 1, 4, 1, 0]"
proof -
  have h: "SAMPLING_RATE_HZ config_crossed \<noteq> 0"
    by (simp add: config_crossed_def config_py_def)
  have c: "FILTER_LOWCUT_HZ config_crossed = 40 \<and> FILTER_HIGHCUT_HZ config_crossed = 1 / 2"
    by (simp add: config_crossed_def config_py_def)
  have g: "FILTER_LOWCUT_HZ config_crossed / (SAMPLING_RATE_HZ config_crossed / 2)
       \<ge> FILTER_HIGHCUT_HZ config_crossed / (SAMPLING_RATE_HZ config_crossed / 2)"
    by (simp add: config_crossed_def config_py_def)
  have h': "SAMPLING_RATE_HZ config_py \<noteq> 0"
    by (simp add: config_py_def)
  have s: "int (length [0, 1, 4, 1, 0 :: real]) < FILTER_ORDER config_py * 3"
    by (simp add: config_py_def)
  from butter_bandpass_filter_guards
         [OF h, of "[0, 1, 4, 1, 0, 0, 1, 4, 1, 0]" identity_bandpass] c
  have 1: "butter_bandpass_filter identity_bandpass config_crossed
             [0, 1, 4, 1, 0, 0, 1, 4, 1, 0]
           = ([Warning_Invalid_critical_frequencies], Inr [0, 1, 4, 1, 0, 0, 1, 4, 1, 0])"
    by blast
  from butter_bandpass_filter_guards [OF h', of "[0, 1, 4, 1, 0]" identity_bandpass] s
  have 2: "snd (butter_bandpass_filter identity_bandpass config_py [0, 1, 4, 1, 0])
             = Inr [0, 1, 4, 1, 0]"
    by blast
  from h c g h' s 1 2 show ?thesis by blast
qed

text \<open>At the rate zero the division by the Nyquist frequency raises.\<close>

lemma butter_bandpass_filter_zero_rate:
  "SAMPLING_RATE_HZ cfg = 0
     \<Longrightarrow> butter_bandpass_filter butter_filtfilt cfg data = ([], Inl ZeroDivisionError)"
  by (simp add: butter_bandpass_filter_def)

subsection \<open>Peak detection\<close>

lemma np_max_eq: "xs \<noteq> [] \<Longrightarrow> np_max xs = Max (set xs)"
  by (cases xs) (simp_all add: np_max_def Max.set_eq_fold [symmetric])

lemma np_min_eq: "xs \<noteq> [] \<Longrightarrow> np_min xs = Min (set xs)"
  by (cases xs) (simp_all add: np_min_def Min.set_eq_fold [symmetric])

text \<open>
  Claim C8. For every (non-empty) filtered signal whose range \<open>max - min\<close> is below
  \<open>1e-6\<close>, \<open>detect_r_peaks\<close> prints the flat-signal warning and returns an empty
  PeakSet, not an error.
\<close>

theorem detect_r_peaks_flat_signal:
  assumes "signal \<noteq> []" and "Max (set signal) - Min (set signal) < 1 / 1000000"
  shows "detect_r_peaks cfg (Some signal) = ([Warning_Filtered_signal_is_flat], Inr [])"
  using assms by (simp add: detect_r_peaks_def Let_def np_max_eq np_min_eq)

theorem detect_r_peaks_flat_signal_witness:
  "[5, 5, 5 :: real] \<noteq> []
   \<and> Max (set [5, 5, 5 :: real]) - Min (set [5, 5, 5]) < 1 / 1000000
   \<and> detect_r_peaks config_py (Some [5, 5, 5]) = ([Warning_Filtered_signal_is_flat], Inr [])"
proof -
  have a: "[5, 5, 5 :: real] \<noteq> []" by simp
  have b: "Max (set [5, 5, 5 :: real]) - Min (set [5, 5, 5]) < 1 / 1000000" by simp
  show ?thesis using a b detect_r_peaks_flat_signal [OF a b, of config_py] by simp
qed


















subsection \<open>The orchestrator\<close>

lemma calculate_hrv_metrics_empty: "calculate_hrv_metrics (Some []) = all_undefined"
  by (simp add: calculate_hrv_metrics_def all_undefined_def)

text \<open>
  Claim C4, as the code has it. For every input that is absent or empty, and for every
  buffer that has fewer than \<open>sampling_rate_hz * 2\<close> samples and fewer than
  \<open>filter_order * 3\<close> samples, \<open>process_ecg_data\<close> aborts at once: it prints only the
  messages up to the abort, runs no stage and returns \<open>(None, None, None, {})\<close>. In
  particular a buffer of length 5 with filter order 3 aborts this way at every sampling rate
  above 2.5 Hz, the configured 250 Hz among them.
\<close>

theorem process_ecg_data_aborts:
  "process_ecg_data butter_filtfilt cfg None
     = ([Processing_ECG_data, Error_No_raw_ECG_signal_data], Inr (None, None, None, Map.empty))
   \<and> process_ecg_data butter_filtfilt cfg (Some [])
     = ([Processing_ECG_data, Error_No_raw_ECG_signal_data], Inr (None, None, None, Map.empty))
   \<and> (raw \<noteq> [] \<and> real (length raw) < SAMPLING_RATE_HZ cfg * 2
        \<and> int (length raw) < FILTER_ORDER cfg * 3
      \<longrightarrow> process_ecg_data butter_filtfilt cfg (Some raw)
            = ([Processing_ECG_data, Data_length (length raw), Processing_Sampling_Rate,
                Warning_Data_is_very_short, Error_Data_is_too_short_Aborting],
               Inr (None, None, None, Map.empty)))
   \<and> (length raw = 5 \<and> FILTER_ORDER cfg = 3 \<and> 5 / 2 < SAMPLING_RATE_HZ cfg
      \<longrightarrow> process_ecg_data butter_filtfilt cfg (Some raw)
            = ([Processing_ECG_data, Data_length 5, Processing_Sampling_Rate,
                Warning_Data_is_very_short, Error_Data_is_too_short_Aborting],
               Inr (None, None, None, Map.empty)))"
  by (auto simp: process_ecg_data_def Let_def)

theorem process_ecg_data_aborts_witness:
  "[3, 1, 4, 1, 5 :: real] \<noteq> []
   \<and> real (length [3, 1, 4, 1, 5 :: real]) < SAMPLING_RATE_HZ config_py * 2
   \<and> int (length [3, 1, 4, 1, 5 :: real]) < FILTER_ORDER config_py * 3
   \<and> length [3, 1, 4, 1, 5 :: real] = 5 \<and> FILTER_ORDER config_py = 3
   \<and> 5 / 2 < SAMPLING_RATE_HZ config_py
   \<and> process_ecg_data identity_bandpass config_py (Some [3, 1, 4, 1, 5])
       = ([Processing_ECG_data, Data_length 5, Processing_Sampling_Rate,
           Warning_Data_is_very_short, Error_Data_is_too_short_Aborting],
          Inr (None, None, None, Map.empty))"
proof -
  have a: "[3, 1, 4, 1, 5 :: real] \<noteq> []
     \<and> real (length [3, 1, 4, 1, 5 :: real]) < SAMPLING_RATE_HZ config_py * 2
     \<and> int (length [3, 1, 4, 1, 5 :: real]) < FILTER_ORDER config_py * 3"
    by (simp add: config_py_def)
  have b: "length [3, 1, 4, 1, 5 :: real] = 5 \<and> FILTER_ORDER config_py = 3
     \<and> 5 / 2 < SAMPLING_RATE_HZ config_py"
    by (simp add: config_py_def)
  from process_ecg_data_aborts [of identity_bandpass config_py "[3, 1, 4, 1, 5]"] b
  have "process_ecg_data identity_bandpass config_py (Some [3, 1, 4, 1, 5])
       = ([Processing_ECG_data, Data_length 5, Processing_Sampling_Rate,
           Warning_Data_is_very_short, Error_Data_is_too_short_Aborting],
          Inr (None, None, None, Map.empty))"
    by blast
  with a b show ?thesis by blast
qed

text \<open>
  The claim as written aborts on every buffer shorter than \<open>filter_order * 3\<close>. The
  length check is nested in the check against \<open>sampling_rate_hz * 2\<close>: at 2 Hz a buffer
  of 5 samples is not shorter than two seconds, so the filter and the peak detector run
  and a result is returned.
\<close>

lemma flat_buffer_2_Hz:
  "process_ecg_data identity_bandpass config_2_Hz (Some [0, 0, 0, 0, 0])
     = ([Processing_ECG_data, Data_length 5, Processing_Sampling_Rate, Filtering_ECG_signal,
         Warning_Invalid_critical_frequencies, Detecting_R_peaks,
         Warning_Filtered_signal_is_flat, Warning_Less_than_2_R_peaks 0,
         Consider_adjusting_parameters, ECG_processing_complete],
        Inr (Some [0, 0, 0, 0, 0], Some [], Some [], all_undefined))"
proof -
  have f: "butter_bandpass_filter identity_bandpass config_2_Hz [0, 0, 0, 0, 0]
             = ([Warning_Invalid_critical_frequencies], Inr [0, 0, 0, 0, 0])"
    by (simp add: butter_bandpass_filter_def config_2_Hz_def config_py_def)
  have d: "detect_r_peaks config_2_Hz (Some [0, 0, 0, 0, 0])
             = ([Warning_Filtered_signal_is_flat], Inr [])"
    by (simp add: detect_r_peaks_def Let_def np_max_def np_min_def)
  have s: "SAMPLING_RATE_HZ config_2_Hz = 2" "FILTER_ORDER config_2_Hz = 3"
    by (simp_all add: config_2_Hz_def config_py_def)
  show ?thesis
    by (simp add: process_ecg_data_def f d s calculate_hrv_metrics_empty)
qed

theorem process_ecg_data_short_buffer_counterexample:
  "length [0, 0, 0, 0, 0 :: real] = 5 \<and> FILTER_ORDER config_2_Hz = 3
   \<and> int (length [0, 0, 0, 0, 0 :: real]) < FILTER_ORDER config_2_Hz * 3
   \<and> snd (process_ecg_data identity_bandpass config_2_Hz (Some [0, 0, 0, 0, 0]))
       = Inr (Some [0, 0, 0, 0, 0], Some [], Some [], all_undefined)
   \<and> snd (process_ecg_data identity_bandpass config_2_Hz (Some [0, 0, 0, 0, 0]))
       \<noteq> Inr (None, None, None, Map.empty)
   \<and> Filtering_ECG_signal
       \<in> set (fst (process_ecg_data identity_bandpass config_2_Hz (Some [0, 0, 0, 0, 0])))
   \<and> Detecting_R_peaks
       \<in> set (fst (process_ecg_data identity_bandpass config_2_Hz (Some [0, 0, 0, 0, 0])))"
  unfolding flat_buffer_2_Hz by (simp add: config_2_Hz_def config_py_def)

lemma detect_r_peaks_non_positive_rate:
  assumes "SAMPLING_RATE_HZ cfg \<le> 0"
  shows "snd (detect_r_peaks cfg filtered_ecg_signal) = Inr []"
  using assms by (simp add: detect_r_peaks_def Let_def split: option.splits)

lemma butter_bandpass_filter_returns:
  assumes "SAMPLING_RATE_HZ cfg \<noteq> 0"
  shows "\<exists>printed y. butter_bandpass_filter butter_filtfilt cfg data = (printed, Inr y)"
  using assms by (simp add: butter_bandpass_filter_def Let_def split: option.splits)

text \<open>
  Claim C6, as the code has it. When the configured sampling rate is non-positive the
  condition is absorbed: \<open>detect_r_peaks\<close> returns an empty PeakSet and
  \<open>calculate_rr_intervals\<close> an empty series, each printing the invalid-rate error when
  it reaches the check of the rate; with a negative rate \<open>process_ecg_data\<close> returns,
  for every non-empty buffer, a result of four fields with an empty PeakSet, an empty RR
  series and all five metrics undefined.
\<close>

theorem non_positive_sampling_rate_is_absorbed:
  assumes "SAMPLING_RATE_HZ cfg \<le> 0"
  shows "snd (detect_r_peaks cfg filtered_ecg_signal) = Inr []
    \<and> (signal \<noteq> [] \<and> \<not> Max (set signal) - Min (set signal) < 1 / 1000000
         \<longrightarrow> detect_r_peaks cfg (Some signal)
               = ([Error_Invalid_sampling_rate_for_peak_distance], Inr []))
    \<and> snd (calculate_rr_intervals cfg r_peaks_indices) = []
    \<and> (2 \<le> length peaks
         \<longrightarrow> calculate_rr_intervals cfg (Some peaks)
               = ([Error_Invalid_sampling_rate_for_RR_interval], []))
    \<and> (SAMPLING_RATE_HZ cfg < 0 \<and> raw \<noteq> []
         \<longrightarrow> (\<exists>filtered_ecg.
                snd (process_ecg_data butter_filtfilt cfg (Some raw))
                  = Inr (Some filtered_ecg, Some [], Some [], all_undefined)))"
proof -
  have a: "snd (detect_r_peaks cfg filtered_ecg_signal) = Inr []"
    by (rule detect_r_peaks_non_positive_rate [OF assms])
  have b: "detect_r_peaks cfg (Some signal)
             = ([Error_Invalid_sampling_rate_for_peak_distance], Inr [])"
    if "signal \<noteq> []" "\<not> Max (set signal) - Min (set signal) < 1 / 1000000"
    using that assms by (simp add: detect_r_peaks_def Let_def np_max_eq np_min_eq)
  have c: "snd (calculate_rr_intervals cfg r_peaks_indices) = []"
    using assms by (simp add: calculate_rr_intervals_def Let_def split: option.splits)
  have d: "calculate_rr_intervals cfg (Some peaks)
             = ([Error_Invalid_sampling_rate_for_RR_interval], [])"
    if "2 \<le> length peaks"
    using that assms by (simp add: calculate_rr_intervals_def Let_def)
  have e: "\<exists>filtered_ecg.
             snd (process_ecg_data butter_filtfilt cfg (Some raw))
               = Inr (Some filtered_ecg, Some [], Some [], all_undefined)"
    if neg: "SAMPLING_RATE_HZ cfg < 0" and raw: "raw \<noteq> []"
  proof -
    from neg obtain printed y
      where f: "butter_bandpass_filter butter_filtfilt cfg raw = (printed, Inr y)"
      using butter_bandpass_filter_returns [of cfg butter_filtfilt raw] by auto
    obtain printed' where p: "detect_r_peaks cfg (Some y) = (printed', Inr [])"
      using detect_r_peaks_non_positive_rate [OF assms, of "Some y"]
      by (cases "detect_r_peaks cfg (Some y)") simp
    have short: "\<not> real (length raw) < SAMPLING_RATE_HZ cfg * 2"
      using neg by (smt (verit) of_nat_0_le_iff)
    show ?thesis
      using raw short
      by (simp add: process_ecg_data_def f p calculate_hrv_metrics_empty)
  qed
  from a b c d e show ?thesis by blast
qed

theorem non_positive_sampling_rate_is_absorbed_witness:
  "SAMPLING_RATE_HZ config_negative_rate \<le> 0
   \<and> [0, 2 :: real] \<noteq> [] \<and> \<not> Max (set [0, 2 :: real]) - Min (set [0, 2]) < 1 / 1000000
   \<and> detect_r_peaks config_negative_rate (Some [0, 2])
       = ([Error_Invalid_sampling_rate_for_peak_distance], Inr [])
   \<and> 2 \<le> length [100, 350 :: int]
   \<and> calculate_rr_intervals config_negative_rate (Some [100, 350])
       = ([Error_Invalid_sampling_rate_for_RR_interval], [])
   \<and> SAMPLING_RATE_HZ config_negative_rate < 0
   \<and> (\<exists>filtered_ecg.
         snd (process_ecg_data identity_bandpass config_negative_rate (Some [0, 2]))
           = Inr (Some filtered_ecg, Some [], Some [], all_undefined))"
proof -
  have h: "SAMPLING_RATE_HZ config_negative_rate \<le> 0"
    and n: "SAMPLING_RATE_HZ config_negative_rate < 0"
    by (simp_all add: config_negative_rate_def config_py_def)
  have s: "[0, 2 :: real] \<noteq> [] \<and> \<not> Max (set [0, 2 :: real]) - Min (set [0, 2]) < 1 / 1000000"
    by simp
  have p: "2 \<le> length [100, 350 :: int]"
    by simp
  from non_positive_sampling_rate_is_absorbed
         [OF h, where signal = "[0, 2]" and peaks = "[100, 350]" and raw = "[0, 2]"
            and butter_filtfilt = identity_bandpass]
    s p n
  show ?thesis using h by blast
qed

text \<open>
  The claim as written makes a non-positive rate fatal, with no result. At -250 Hz a
  buffer of two samples passes through every stage and a result is returned.
\<close>

lemma two_samples_negative_rate:
  "process_ecg_data identity_bandpass config_negative_rate (Some [0, 2])
     = ([Processing_ECG_data, Data_length 2, Processing_Sampling_Rate, Filtering_ECG_signal,
         Warning_Invalid_critical_frequencies, Detecting_R_peaks,
         Error_Invalid_sampling_rate_for_peak_distance, Warning_Less_than_2_R_peaks 0,
         Consider_adjusting_parameters, ECG_processing_complete],
        Inr (Some [0, 2], Some [], Some [], all_undefined))"
proof -
  have f: "butter_bandpass_filter identity_bandpass config_negative_rate [0, 2]
             = ([Warning_Invalid_critical_frequencies], Inr [0, 2])"
    by (simp add: butter_bandpass_filter_def config_negative_rate_def config_py_def)
  have d: "detect_r_peaks config_negative_rate (Some [0, 2])
             = ([Error_Invalid_sampling_rate_for_peak_distance], Inr [])"
    by (simp add: detect_r_peaks_def Let_def np_max_def np_min_def config_negative_rate_def
        config_py_def)
  have s: "SAMPLING_RATE_HZ config_negative_rate = - 250" "FILTER_ORDER config_negative_rate = 3"
    by (simp_all add: config_negative_rate_def config_py_def)
  show ?thesis
    by (simp add: process_ecg_data_def f d s calculate_hrv_metrics_empty)
qed

theorem negative_sampling_rate_counterexample:
  "SAMPLING_RATE_HZ config_negative_rate \<le> 0
   \<and> snd (process_ecg_data identity_bandpass config_negative_rate (Some [0, 2]))
       = Inr (Some [0, 2], Some [], Some [], all_undefined)
   \<and> snd (process_ecg_data identity_bandpass config_negative_rate (Some [0, 2]))
       \<noteq> Inr (None, None, None, Map.empty)"
  unfolding two_samples_negative_rate by (simp add: config_negative_rate_def config_py_def)

end
